theory Spec2Isabelle
  imports Main
begin

section \<open>Data model (internal/models, internal/config)\<close>

text \<open>
  Go strings are byte strings and are modelled as \<open>string\<close>; the empty string is \<open>[]\<close>.
  \<open>time.Time\<close> values are modelled as nanoseconds since the Unix epoch (\<open>int\<close>), and the
  \<open>Duration\<close> field, which the source formats with \<open>Duration.String()\<close>, is kept as the
  number of nanoseconds it prints.
\<close>

record FileTransferRequest =
  TargetHost :: string
  TargetPort :: int
  SourceFilePath :: string
  TargetFilePath :: string
  Username :: string
  Password :: string
  PrivateKeyPath :: string

text \<open>The response's \<open>TargetHost\<close> field is named \<open>RespTargetHost\<close> here, since the
  request record already owns the name.\<close>

record FileTransferResponse =
  ID :: string
  Status :: string
  SourceFile :: string
  TargetFile :: string
  RespTargetHost :: string
  BytesWritten :: int
  StartTime :: int
  EndTime :: int
  Duration :: int
  Error :: string

record APIError =
  Code :: nat
  Message :: string
  Details :: string

text \<open>Of \<open>config.Config\<close> only the three SSH defaults are read by the transfer handler.\<close>

record Config =
  SSHKeyPath :: string
  SSHUsername :: string
  SSHPassword :: string

section \<open>The SSH client configuration (golang.org/x/crypto/ssh)\<close>

datatype Signer = Signer string

datatype AuthMethod = ssh_Password string | ssh_PublicKeys Signer

datatype HostKeyPolicy = InsecureIgnoreHostKey

record ClientConfig =
  User :: string
  Auth :: "AuthMethod list"
  HostKeyCallback :: HostKeyPolicy
  Timeout :: nat

record Client =
  config :: ClientConfig

section \<open>The outside world\<close>

text \<open>
  Everything the code asks of the operating system, the network and the remote host is a
  field of the environment: each call has an outcome, \<open>Inl\<close>/\<open>Some\<close> carrying the text of
  the Go error. A local file that was opened delivers \<open>src_data\<close> and then either
  end-of-file or the read error \<open>src_read_err\<close>. A remote file that was created accepts
  \<open>dst_room\<close> bytes (\<open>None\<close>: any number) and answers the write that exceeds the room
  with \<open>dst_write_err\<close>, having taken the bytes that still fit.
\<close>

record SrcHandle =
  src_data :: string
  src_read_err :: "string option"

record DstHandle =
  dst_room :: "nat option"
  dst_write_err :: string

record env =
  readFile :: "string \<Rightarrow> string + string"
  parsePrivateKey :: "string \<Rightarrow> string + Signer"
  sshDial :: "string \<Rightarrow> ClientConfig \<Rightarrow> string option"
  sftpNewClient :: "string option"
  osOpen :: "string \<Rightarrow> string + SrcHandle"
  filepathDir :: "string \<Rightarrow> string"
  sftpMkdirAll :: "string \<Rightarrow> string option"
  sftpCreate :: "string \<Rightarrow> string + DstHandle"
  clock :: "nat \<Rightarrow> int"

datatype resource = Conn | SftpClient | SrcFile | DstFile

datatype event =
    EvReadFile string
  | EvDial string ClientConfig
  | EvNewSftpClient
  | EvOpen string
  | EvMkdirAll string
  | EvCreate string
  | EvCopy
  | EvClose resource

text \<open>
  The state threaded through the code: the calls made to the outside world so far, in
  order; the handles that are open; how many times the clock was read; the bytes the
  remote destination file has received.
\<close>

record world =
  trace :: "event list"
  handles :: "resource list"
  ticks :: nat
  remote_data :: string

definition record_event :: "event \<Rightarrow> world \<Rightarrow> world" where
  "record_event ev w = w\<lparr>trace := trace w @ [ev]\<rparr>"

definition acquire :: "resource \<Rightarrow> world \<Rightarrow> world" where
  "acquire r w = w\<lparr>handles := r # handles w\<rparr>"

definition release :: "resource \<Rightarrow> world \<Rightarrow> world" where
  "release r w = w\<lparr>trace := trace w @ [EvClose r], handles := remove1 r (handles w)\<rparr>"

text \<open>Go runs the deferred calls of a function when it returns, last deferred first; the
  list is the defer stack, its head the call deferred last.\<close>

fun run_deferred :: "resource list \<Rightarrow> world \<Rightarrow> world" where
  "run_deferred [] w = w"
| "run_deferred (r # rs) w = run_deferred rs (release r w)"

text \<open>\<open>time.Now()\<close>: the k-th reading of the clock.\<close>

definition now :: "env \<Rightarrow> world \<Rightarrow> int \<times> world" where
  "now e w = (clock e (ticks w), w\<lparr>ticks := Suc (ticks w)\<rparr>)"

section \<open>Formatting integers (the \<open>%d\<close> verb)\<close>

definition digit_char :: "nat \<Rightarrow> char" where
  "digit_char d = ''0123456789'' ! d"

function show_nat :: "nat \<Rightarrow> string" where
  "show_nat n = (if n < 10 then [digit_char n] else show_nat (n div 10) @ [digit_char (n mod 10)])"
  by pat_completeness auto
termination
  by (relation "measure id") auto

definition show_int :: "int \<Rightarrow> string" where
  "show_int i = (if i < 0 then ''-'' @ show_nat (nat (- i)) else show_nat (nat i))"

section \<open>The session factory: \<open>NewClient\<close> (internal/ssh)\<close>

definition NewClient :: "env \<Rightarrow> string \<Rightarrow> string \<Rightarrow> string \<Rightarrow> world \<Rightarrow> (string + Client) \<times> world" where
  "NewClient e username password keyPath w =
     (let cfg = \<lparr>User = username, Auth = [], HostKeyCallback = InsecureIgnoreHostKey, Timeout = 30\<rparr> in
      if password \<noteq> [] then
        (Inr \<lparr>config = cfg\<lparr>Auth := [ssh_Password password]\<rparr>\<rparr>, w)
      else if keyPath \<noteq> [] then
        (let w1 = record_event (EvReadFile keyPath) w in
         case readFile e keyPath of
           Inl err \<Rightarrow> (Inl (''unable to read private key: '' @ err), w1)
         | Inr key \<Rightarrow>
             (case parsePrivateKey e key of
                Inl err \<Rightarrow> (Inl (''unable to parse private key: '' @ err), w1)
              | Inr signer \<Rightarrow> (Inr \<lparr>config = cfg\<lparr>Auth := [ssh_PublicKeys signer]\<rparr>\<rparr>, w1)))
      else (Inl ''either password or keyPath must be provided'', w))"

section \<open>\<open>io.Copy\<close>\<close>

text \<open>
  The standard library's copy loop: read a chunk of at most 32 KiB from the source, write
  it to the destination, add the number of bytes the write took to the count, stop on a
  write error, and stop at the end of the source, with the read error if it ended in one.
  The last argument is what the destination has received.
\<close>

definition chunk_size :: nat where
  "chunk_size = 32768"

function copyBuffer ::
  "string \<Rightarrow> string option \<Rightarrow> nat option \<Rightarrow> string \<Rightarrow> int \<Rightarrow> string \<Rightarrow> (int \<times> string option) \<times> string" where
  "copyBuffer rest rerr room werr written received =
     (if rest = [] then ((written, rerr), received)
      else
        (let buf = take chunk_size rest in
         case room of
           None \<Rightarrow>
             copyBuffer (drop chunk_size rest) rerr None werr
               (written + int (length buf)) (received @ buf)
         | Some k \<Rightarrow>
             if length buf \<le> k then
               copyBuffer (drop chunk_size rest) rerr (Some (k - length buf)) werr
                 (written + int (length buf)) (received @ buf)
             else ((written + int k, Some werr), received @ take k buf)))"
  by pat_completeness auto
termination
  by (relation "measure (\<lambda>(rest, rerr, room, werr, written, received). length rest)")
     (auto simp: chunk_size_def)

definition io_Copy :: "DstHandle \<Rightarrow> SrcHandle \<Rightarrow> (int \<times> string option) \<times> string" where
  "io_Copy dst src =
     copyBuffer (src_data src) (src_read_err src) (dst_room dst) (dst_write_err dst) 0 []"

section \<open>The orchestrator: \<open>Client.TransferFile\<close> (internal/ssh)\<close>

text \<open>The session configuration of a request (the override block at the head of
  \<open>TransferFile\<close>).\<close>

definition request_config ::
  "env \<Rightarrow> Client \<Rightarrow> FileTransferRequest \<Rightarrow> world \<Rightarrow> (string + ClientConfig) \<times> world" where
  "request_config e c req w =
     (if Username req \<noteq> [] \<or> Password req \<noteq> [] \<or> PrivateKeyPath req \<noteq> [] then
        (let cfg = \<lparr>User = Username req, Auth = [], HostKeyCallback = InsecureIgnoreHostKey,
                      Timeout = 30\<rparr> in
         if Password req \<noteq> [] then (Inr (cfg\<lparr>Auth := [ssh_Password (Password req)]\<rparr>), w)
         else if PrivateKeyPath req \<noteq> [] then
           (let w1 = record_event (EvReadFile (PrivateKeyPath req)) w in
            case readFile e (PrivateKeyPath req) of
              Inl err \<Rightarrow> (Inl (''unable to read private key: '' @ err), w1)
            | Inr key \<Rightarrow>
                (case parsePrivateKey e key of
                   Inl err \<Rightarrow> (Inl (''unable to parse private key: '' @ err), w1)
                 | Inr signer \<Rightarrow> (Inr (cfg\<lparr>Auth := [ssh_PublicKeys signer]\<rparr>), w1)))
         else (Inr cfg, w))
      else (Inr (config c), w))"

text \<open>The \<open>failed\<close> response every stage failure returns: the clock is read for \<open>EndTime\<close>
  and again by \<open>time.Since\<close>, then the deferred calls run.\<close>

definition return_failed ::
  "env \<Rightarrow> FileTransferRequest \<Rightarrow> int \<Rightarrow> int \<Rightarrow> string \<Rightarrow> string \<Rightarrow> resource list \<Rightarrow> world
     \<Rightarrow> (FileTransferResponse option \<times> string option) \<times> world" where
  "return_failed e req startTime bytesWritten msg err deferred w =
     (let (endTime, w1) = now e w;
          (t, w2) = now e w1 in
      ((Some \<lparr>ID = [], Status = ''failed'', SourceFile = SourceFilePath req,
               TargetFile = TargetFilePath req, RespTargetHost = TargetHost req,
               BytesWritten = bytesWritten, StartTime = startTime, EndTime = endTime,
               Duration = t - startTime, Error = msg\<rparr>,
        Some err),
       run_deferred deferred w2))"

definition TransferFile ::
  "env \<Rightarrow> Client \<Rightarrow> FileTransferRequest \<Rightarrow> world
     \<Rightarrow> (FileTransferResponse option \<times> string option) \<times> world" where
  "TransferFile e c req w =
     (let (startTime, w0) = now e w in
      case request_config e c req w0 of
        (Inl err, w1) \<Rightarrow> ((None, Some err), w1)
      | (Inr cfg, w1) \<Rightarrow>
     (let addr = TargetHost req @ '':'' @ show_int (TargetPort req);
          w2 = record_event (EvDial addr cfg) w1 in
      case sshDial e addr cfg of
        Some err \<Rightarrow>
          return_failed e req startTime 0 (''failed to connect to SSH server: '' @ err) err [] w2
      | None \<Rightarrow>
     (let w3 = record_event EvNewSftpClient (acquire Conn w2) in
      case sftpNewClient e of
        Some err \<Rightarrow>
          return_failed e req startTime 0 (''failed to create SFTP client: '' @ err) err [Conn] w3
      | None \<Rightarrow>
     (let w4 = record_event (EvOpen (SourceFilePath req)) (acquire SftpClient w3) in
      case osOpen e (SourceFilePath req) of
        Inl err \<Rightarrow>
          return_failed e req startTime 0 (''failed to open source file: '' @ err) err
            [SftpClient, Conn] w4
      | Inr srcFile \<Rightarrow>
     (let targetDir = filepathDir e (TargetFilePath req);
          w5 = record_event (EvMkdirAll targetDir) (acquire SrcFile w4) in
      case sftpMkdirAll e targetDir of
        Some err \<Rightarrow>
          return_failed e req startTime 0 (''failed to create target directory: '' @ err) err
            [SrcFile, SftpClient, Conn] w5
      | None \<Rightarrow>
     (let w6 = record_event (EvCreate (TargetFilePath req)) w5 in
      case sftpCreate e (TargetFilePath req) of
        Inl err \<Rightarrow>
          return_failed e req startTime 0 (''failed to create target file: '' @ err) err
            [SrcFile, SftpClient, Conn] w6
      | Inr dstFile \<Rightarrow>
     (let ((bytesWritten, cerr), received) = io_Copy dstFile srcFile;
          w7 = (record_event EvCopy (acquire DstFile w6))\<lparr>remote_data := received\<rparr> in
      case cerr of
        Some err \<Rightarrow>
          return_failed e req startTime bytesWritten (''failed to copy file contents: '' @ err) err
            [DstFile, SrcFile, SftpClient, Conn] w7
      | None \<Rightarrow>
     (let (endTime, w8) = now e w7;
          (idTime, w9) = now e w8 in
      ((Some \<lparr>ID = ''transfer-'' @ show_int idTime, Status = ''completed'',
               SourceFile = SourceFilePath req, TargetFile = TargetFilePath req,
               RespTargetHost = TargetHost req, BytesWritten = bytesWritten,
               StartTime = startTime, EndTime = endTime, Duration = endTime - startTime,
               Error = []\<rparr>,
        None),
       run_deferred [DstFile, SrcFile, SftpClient, Conn] w9)))))))))"

section \<open>The HTTP handler: \<open>Server.TransferFile\<close> (internal/api)\<close>

text \<open>
  The request body after JSON decoding: a field is \<open>None\<close> when the object leaves it out
  (a body that is not an object, or holds a value of the wrong JSON type, is outside the model).
  \<open>ShouldBindJSON\<close> fills the struct (an absent field keeps Go's zero value) and then
  checks the \<open>binding:"required"\<close> tags of \<open>FileTransferRequest\<close>; the validator's
  \<open>required\<close> rejects a field that holds the zero value of its type.
\<close>

record json_payload =
  j_target_host :: "string option"
  j_target_port :: "int option"
  j_source_file_path :: "string option"
  j_target_file_path :: "string option"
  j_username :: "string option"
  j_password :: "string option"
  j_private_key_path :: "string option"

definition str_or_zero :: "string option \<Rightarrow> string" where
  "str_or_zero v = (case v of None \<Rightarrow> [] | Some s \<Rightarrow> s)"

definition decode :: "json_payload \<Rightarrow> FileTransferRequest" where
  "decode p =
     \<lparr>TargetHost = str_or_zero (j_target_host p),
      TargetPort = (case j_target_port p of None \<Rightarrow> 0 | Some n \<Rightarrow> n),
      SourceFilePath = str_or_zero (j_source_file_path p),
      TargetFilePath = str_or_zero (j_target_file_path p),
      Username = str_or_zero (j_username p),
      Password = str_or_zero (j_password p),
      PrivateKeyPath = str_or_zero (j_private_key_path p)\<rparr>"

definition required_failures :: "FileTransferRequest \<Rightarrow> string list" where
  "required_failures req =
     (if TargetHost req = [] then [''TargetHost''] else []) @
     (if TargetPort req = 0 then [''TargetPort''] else []) @
     (if SourceFilePath req = [] then [''SourceFilePath''] else []) @
     (if TargetFilePath req = [] then [''TargetFilePath''] else [])"

definition quoted :: "string \<Rightarrow> string" where
  "quoted s = [CHR 0x27] @ s @ [CHR 0x27]"

definition field_error :: "string \<Rightarrow> string" where
  "field_error f =
     ''Key: '' @ quoted (''FileTransferRequest.'' @ f) @ '' Error:Field validation for '' @
     quoted f @ '' failed on the '' @ quoted ''required'' @ '' tag''"

fun join_lines :: "string list \<Rightarrow> string" where
  "join_lines [] = []"
| "join_lines [l] = l"
| "join_lines (l # ls) = l @ [CHR 0x0A] @ join_lines ls"

definition ShouldBindJSON :: "json_payload \<Rightarrow> string + FileTransferRequest" where
  "ShouldBindJSON p =
     (let req = decode p; bad = required_failures req in
      if bad = [] then Inr req else Inl (join_lines (map field_error bad)))"

datatype response_body = JSON_APIError APIError | JSON_Response "FileTransferResponse option"

definition handle_TransferFile ::
  "Config \<Rightarrow> env \<Rightarrow> json_payload \<Rightarrow> world \<Rightarrow> (nat \<times> response_body) \<times> world" where
  "handle_TransferFile s e body w =
     (case ShouldBindJSON body of
        Inl err \<Rightarrow>
          ((400, JSON_APIError \<lparr>Code = 400, Message = ''Invalid request payload'', Details = err\<rparr>), w)
      | Inr req0 \<Rightarrow>
     (let req = (if TargetPort req0 = 0 then req0\<lparr>TargetPort := 22\<rparr> else req0);
          username = (if Username req = [] then SSHUsername s else Username req);
          password = (if Password req = [] then SSHPassword s else Password req);
          keyPath = (if PrivateKeyPath req = [] then SSHKeyPath s else PrivateKeyPath req) in
      case NewClient e username password keyPath w of
        (Inl err, w1) \<Rightarrow>
          ((500, JSON_APIError \<lparr>Code = 500, Message = ''Failed to create SSH client'',
                                 Details = err\<rparr>), w1)
      | (Inr client, w1) \<Rightarrow>
          (case TransferFile e client req w1 of
             ((response, Some err), w2) \<Rightarrow>
               (case response of
                  Some r \<Rightarrow> ((500, JSON_Response (Some r)), w2)
                | None \<Rightarrow>
                    ((500, JSON_APIError \<lparr>Code = 500, Message = ''Failed to transfer file'',
                                           Details = err\<rparr>), w2))
           | ((response, None), w2) \<Rightarrow> ((200, JSON_Response response), w2))))"

section \<open>Concrete environments and requests\<close>

definition env_ok :: env where
  "env_ok =
     \<lparr>readFile = (\<lambda>p. Inr ''KEY''),
      parsePrivateKey = (\<lambda>k. Inr (Signer k)),
      sshDial = (\<lambda>a c. None),
      sftpNewClient = None,
      osOpen = (\<lambda>p. Inr \<lparr>src_data = ''hello'', src_read_err = None\<rparr>),
      filepathDir = (\<lambda>p. ''/remote/dir''),
      sftpMkdirAll = (\<lambda>d. None),
      sftpCreate = (\<lambda>p. Inr \<lparr>dst_room = None, dst_write_err = ''write failed''\<rparr>),
      clock = (\<lambda>k. 1000 + int k)\<rparr>"

definition w_init :: world where
  "w_init = \<lparr>trace = [], handles = [], ticks = 0, remote_data = []\<rparr>"

definition client_pw :: Client where
  "client_pw =
     \<lparr>config = \<lparr>User = ''svc'', Auth = [ssh_Password ''pw''],
                 HostKeyCallback = InsecureIgnoreHostKey, Timeout = 30\<rparr>\<rparr>"

definition req_plain :: FileTransferRequest where
  "req_plain =
     \<lparr>TargetHost = ''h'', TargetPort = 22, SourceFilePath = ''/tmp/a.txt'',
      TargetFilePath = ''/remote/dir/a.txt'', Username = [], Password = [],
      PrivateKeyPath = []\<rparr>"

definition env_nokey :: env where
  "env_nokey = env_ok\<lparr>readFile := (\<lambda>p. Inl ''open /k: no such file or directory'')\<rparr>"

definition env_badkey :: env where
  "env_badkey = env_ok\<lparr>parsePrivateKey := (\<lambda>k. Inl ''ssh: no key found'')\<rparr>"


definition env_auth :: env where
  "env_auth =
     env_ok\<lparr>sshDial := (\<lambda>a c. if Auth c = [] then Some ''ssh: unable to authenticate'' else None)\<rparr>"

definition env_nosftp :: env where
  "env_nosftp = env_ok\<lparr>sftpNewClient := Some ''EOF''\<rparr>"

definition req_key :: FileTransferRequest where
  "req_key = req_plain\<lparr>PrivateKeyPath := ''/k''\<rparr>"


definition cfg_pw :: Config where
  "cfg_pw = \<lparr>SSHKeyPath = [], SSHUsername = ''svc'', SSHPassword = ''pw''\<rparr>"

definition cfg_none :: Config where
  "cfg_none = \<lparr>SSHKeyPath = [], SSHUsername = ''svc'', SSHPassword = []\<rparr>"

definition body_plain :: json_payload where
  "body_plain =
     \<lparr>j_target_host = Some ''h'', j_target_port = Some 22,
      j_source_file_path = Some ''/tmp/a.txt'', j_target_file_path = Some ''/remote/dir/a.txt'',
      j_username = None, j_password = None, j_private_key_path = None\<rparr>"

definition body_noport :: json_payload where
  "body_noport = body_plain\<lparr>j_target_port := None\<rparr>"

definition body_user :: json_payload where
  "body_user = body_plain\<lparr>j_username := Some ''alice''\<rparr>"

definition body_zero :: json_payload where
  "body_zero = body_plain\<lparr>j_target_port := Some 0\<rparr>"

section \<open>Vocabulary of the properties\<close>

text \<open>A request-supplied private key that cannot be used: the request has no password, names
  a key file, and the file cannot be read or its content does not parse.\<close>

definition key_failure :: "env \<Rightarrow> FileTransferRequest \<Rightarrow> bool" where
  "key_failure e req =
     (Password req = [] \<and> PrivateKeyPath req \<noteq> [] \<and>
      (case readFile e (PrivateKeyPath req) of
         Inl err \<Rightarrow> True
       | Inr key \<Rightarrow> (case parsePrivateKey e key of Inl err \<Rightarrow> True | Inr signer \<Rightarrow> False)))"





section \<open>Facts about the building blocks\<close>

declare copyBuffer.simps [simp del]

lemma run_deferred_eq:
  "run_deferred ds w =
     w\<lparr>trace := trace w @ map EvClose ds, handles := fold remove1 ds (handles w)\<rparr>"
  by (induction ds arbitrary: w) (simp_all add: release_def)

text \<open>When the destination has room for all that is left, the loop delivers it all and
  ends with the source's own outcome.\<close>

lemma copyBuffer_fits:
  "(case room of None \<Rightarrow> True | Some k \<Rightarrow> length rest \<le> k) \<Longrightarrow>
   copyBuffer rest rerr room werr written received =
     ((written + int (length rest), rerr), received @ rest)"
proof (induction rest rerr room werr written received rule: copyBuffer.induct)
  case (1 rest rerr room werr written received)
  let ?buf = "take chunk_size rest" and ?tl = "drop chunk_size rest"
  show ?case
  proof (cases "rest = []")
    case True
    then show ?thesis by (subst copyBuffer.simps) simp
  next
    case False
    have len: "int (length ?buf) + int (length ?tl) = int (length rest)"
      by (simp add: min_def)
    show ?thesis
    proof (cases room)
      case None
      from "1.IH"(1)[OF False refl None] None
      have "copyBuffer ?tl rerr None werr (written + int (length ?buf)) (received @ ?buf) =
            ((written + int (length ?buf) + int (length ?tl), rerr), (received @ ?buf) @ ?tl)"
        by simp
      with False None len show ?thesis
        by (subst copyBuffer.simps) (simp add: Let_def)
    next
      case (Some k)
      with "1.prems" have fits: "length ?buf \<le> k" "length rest \<le> k" by simp_all
      from "1.IH"(2)[OF False refl Some fits(1)] fits
      have "copyBuffer ?tl rerr (Some (k - length ?buf)) werr
              (written + int (length ?buf)) (received @ ?buf) =
            ((written + int (length ?buf) + int (length ?tl), rerr), (received @ ?buf) @ ?tl)"
        by simp
      with False Some fits len show ?thesis
        by (subst copyBuffer.simps) (simp add: Let_def)
    qed
  qed
qed

text \<open>When the destination has room for only \<open>m\<close> bytes, fewer than are left, the loop stops
  with the write error after exactly \<open>m\<close> bytes.\<close>

lemma copyBuffer_short:
  "room = Some m \<Longrightarrow> m < length rest \<Longrightarrow>
   copyBuffer rest rerr room werr written received =
     ((written + int m, Some werr), received @ take m rest)"
proof (induction rest rerr room werr written received arbitrary: m rule: copyBuffer.induct)
  case (1 rest rerr room werr written received)
  from "1.prems" have ne: "rest \<noteq> []" by auto
  let ?buf = "take chunk_size rest" and ?tl = "drop chunk_size rest"
  show ?case
  proof (cases "length ?buf \<le> m")
    case True
    with "1.prems"(2) have big: "chunk_size < length rest" "length ?buf = chunk_size" by auto
    with "1.prems"(2) True have m': "m - length ?buf < length ?tl" by simp
    have "copyBuffer ?tl rerr (Some (m - length ?buf)) werr
            (written + int (length ?buf)) (received @ ?buf) =
          ((written + int (length ?buf) + int (m - length ?buf), Some werr),
           (received @ ?buf) @ take (m - length ?buf) ?tl)"
      by (rule "1.IH"(2)[OF ne refl "1.prems"(1) True refl m'])
    moreover have "?buf @ take (m - length ?buf) ?tl = take m rest"
      using True big by (metis le_add_diff_inverse take_add)
    moreover have "int (length ?buf) + int (m - length ?buf) = int m"
      using True by simp
    ultimately show ?thesis using ne "1.prems"(1) True
      by (subst copyBuffer.simps) (simp add: Let_def)
  next
    case False
    then have "take m ?buf = take m rest" by (auto simp: min_def split: if_splits)
    with ne "1.prems"(1) False show ?thesis
      by (subst copyBuffer.simps) (simp add: Let_def)
  qed
qed

lemma io_Copy_eq:
  "io_Copy dst src =
     (case dst_room dst of
        None \<Rightarrow> ((int (length (src_data src)), src_read_err src), src_data src)
      | Some m \<Rightarrow>
          if length (src_data src) \<le> m
          then ((int (length (src_data src)), src_read_err src), src_data src)
          else ((int m, Some (dst_write_err dst)), take m (src_data src)))"
  by (simp add: io_Copy_def copyBuffer_fits copyBuffer_short split: option.splits)

lemma request_config_fst:
  "fst (request_config e c req w) = fst (request_config e c req w')"
  by (simp add: request_config_def Let_def split: sum.splits)

lemma request_config_keeps:
  "request_config e c req w = (res, w') \<Longrightarrow>
     handles w' = handles w \<and> ticks w' = ticks w \<and> remote_data w' = remote_data w"
  by (auto simp: request_config_def Let_def record_event_def split: sum.splits if_splits)

lemma request_config_key_failure:
  "key_failure e req \<Longrightarrow> \<exists>err w1. request_config e c req w = (Inl err, w1)"
  by (auto simp: key_failure_def request_config_def Let_def split: sum.splits)

lemma request_config_no_key_failure:
  "\<not> key_failure e req \<Longrightarrow> \<exists>cfg w1. request_config e c req w = (Inr cfg, w1)"
  by (auto simp: key_failure_def request_config_def Let_def split: sum.splits)


text \<open>With a password or a key path in the request, the override block builds what the
  factory would build from the request's three values.\<close>

lemma request_config_as_factory:
  "Password req \<noteq> [] \<or> PrivateKeyPath req \<noteq> [] \<Longrightarrow>
     request_config e c req w =
       (case NewClient e (Username req) (Password req) (PrivateKeyPath req) w of
          (Inl err, w1) \<Rightarrow> (Inl err, w1)
        | (Inr client, w1) \<Rightarrow> (Inr (config client), w1))"
  by (auto simp: request_config_def NewClient_def Let_def split: sum.splits)

text \<open>A body whose port is absent or zero never passes the binding.\<close>

lemma port_unset_rejected:
  "j_target_port body = None \<or> j_target_port body = Some 0 \<Longrightarrow>
     fst (fst (handle_TransferFile s e body w)) = 400 \<and> snd (handle_TransferFile s e body w) = w"
  by (auto simp: handle_TransferFile_def ShouldBindJSON_def decode_def required_failures_def Let_def)

lemmas run_simps = TransferFile_def return_failed_def now_def Let_def record_event_def acquire_def
  request_config_def io_Copy_eq run_deferred_eq show_int_def digit_char_def NewClient_def
  handle_TransferFile_def ShouldBindJSON_def decode_def required_failures_def str_or_zero_def

section \<open>The session factory\<close>

text \<open>
  C5. \<open>NewClient\<close> fails with the no-credential error exactly when both the password and
  the key path are empty. When the password is non-empty (in particular when both are
  non-empty) it authenticates with the password and reads no file. When only the key path
  is non-empty, it fails with the key-read error if the path cannot be read, with the
  key-parse error if the content does not parse, and authenticates with the parsed key
  otherwise.
\<close>

theorem NewClient_credentials:
  "(fst (NewClient e username password keyPath w) = Inl ''either password or keyPath must be provided''
      \<longleftrightarrow> password = [] \<and> keyPath = [])
   \<and> (password \<noteq> [] \<longrightarrow>
        NewClient e username password keyPath w =
          (Inr \<lparr>config = \<lparr>User = username, Auth = [ssh_Password password],
                           HostKeyCallback = InsecureIgnoreHostKey, Timeout = 30\<rparr>\<rparr>, w))
   \<and> (password = [] \<and> keyPath \<noteq> [] \<longrightarrow>
        (\<forall>err. readFile e keyPath = Inl err \<longrightarrow>
           fst (NewClient e username password keyPath w) = Inl (''unable to read private key: '' @ err))
      \<and> (\<forall>key err. readFile e keyPath = Inr key \<and> parsePrivateKey e key = Inl err \<longrightarrow>
           fst (NewClient e username password keyPath w) = Inl (''unable to parse private key: '' @ err))
      \<and> (\<forall>key signer. readFile e keyPath = Inr key \<and> parsePrivateKey e key = Inr signer \<longrightarrow>
           fst (NewClient e username password keyPath w) =
             Inr \<lparr>config = \<lparr>User = username, Auth = [ssh_PublicKeys signer],
                             HostKeyCallback = InsecureIgnoreHostKey, Timeout = 30\<rparr>\<rparr>))"
  by (auto simp: NewClient_def Let_def split: sum.splits)

theorem NewClient_credentials_witness:
  "NewClient env_ok ''svc'' ''pw'' ''/k'' w_init =
     (Inr \<lparr>config = \<lparr>User = ''svc'', Auth = [ssh_Password ''pw''],
                      HostKeyCallback = InsecureIgnoreHostKey, Timeout = 30\<rparr>\<rparr>, w_init)
   \<and> fst (NewClient env_ok ''svc'' [] [] w_init) = Inl ''either password or keyPath must be provided''
   \<and> fst (NewClient env_ok ''svc'' [] ''/k'' w_init) =
       Inr \<lparr>config = \<lparr>User = ''svc'', Auth = [ssh_PublicKeys (Signer ''KEY'')],
                       HostKeyCallback = InsecureIgnoreHostKey, Timeout = 30\<rparr>\<rparr>"
  using NewClient_credentials [of env_ok "''svc''" "''pw''" "''/k''" w_init]
        NewClient_credentials [of env_ok "''svc''" "[]" "[]" w_init]
        NewClient_credentials [of env_ok "''svc''" "[]" "''/k''" w_init]
  by (simp add: env_ok_def)

section \<open>The orchestrator\<close>

text \<open>
  The claim C1 as stated (every request and every outcome gives a result) fails: a request
  that names a key file which cannot be read, or whose content does not parse, gets no
  result at all, only the error.
\<close>

theorem key_failure_returns_no_result:
  "TransferFile env_nokey client_pw req_key w_init =
     ((None, Some ''unable to read private key: open /k: no such file or directory''),
      \<lparr>trace = [EvReadFile ''/k''], handles = [], ticks = 1, remote_data = []\<rparr>) \<and>
   TransferFile env_badkey client_pw req_key w_init =
     ((None, Some ''unable to parse private key: ssh: no key found''),
      \<lparr>trace = [EvReadFile ''/k''], handles = [], ticks = 1, remote_data = []\<rparr>)"
  by (simp add: run_simps env_nokey_def env_badkey_def env_ok_def client_pw_def req_key_def
        req_plain_def w_init_def)

text \<open>
  C1, amended. Unless a request-supplied private key fails to be read or parsed, the
  transfer returns a result carrying the start time (the clock at entry), the end time (the
  next reading of the clock) and a status: \<open>completed\<close> with no error, or \<open>failed\<close> with a
  non-empty error string and the error also returned beside the result. When a
  request-supplied private key fails to be read or parsed, the transfer returns no result,
  only the error.
\<close>

theorem TransferFile_result_unless_key_failure:
  "(\<not> key_failure e req \<longrightarrow>
      (\<exists>r err w'. TransferFile e c req w = ((Some r, err), w') \<and>
         StartTime r = clock e (ticks w) \<and> EndTime r = clock e (ticks w + 1) \<and>
         (Status r = ''completed'' \<and> err = None \<and> Error r = [] \<or>
          Status r = ''failed'' \<and> err \<noteq> None \<and> Error r \<noteq> []))) \<and>
   (key_failure e req \<longrightarrow> (\<exists>err w'. TransferFile e c req w = ((None, Some err), w')))"
proof (intro conjI impI)
  assume "\<not> key_failure e req"
  then obtain cfg w1 where rc: "request_config e c req (snd (now e w)) = (Inr cfg, w1)"
    using request_config_no_key_failure by blast
  from request_config_keeps [OF rc] have "ticks w1 = Suc (ticks w)"
    by (simp add: now_def)
  with rc show "\<exists>r err w'. TransferFile e c req w = ((Some r, err), w') \<and>
         StartTime r = clock e (ticks w) \<and> EndTime r = clock e (ticks w + 1) \<and>
         (Status r = ''completed'' \<and> err = None \<and> Error r = [] \<or>
          Status r = ''failed'' \<and> err \<noteq> None \<and> Error r \<noteq> [])"
    by (auto simp: TransferFile_def return_failed_def now_def Let_def record_event_def acquire_def
          split: prod.splits sum.splits option.splits)
next
  assume "key_failure e req"
  then obtain err w1 where "request_config e c req (snd (now e w)) = (Inl err, w1)"
    using request_config_key_failure by blast
  then show "\<exists>err w'. TransferFile e c req w = ((None, Some err), w')"
    by (simp add: TransferFile_def now_def split: prod.splits)
qed

theorem TransferFile_result_unless_key_failure_witness:
  "\<not> key_failure env_ok req_plain \<and> key_failure env_nokey req_key \<and>
   fst (fst (TransferFile env_ok client_pw req_plain w_init)) \<noteq> None \<and>
   fst (fst (TransferFile env_nokey client_pw req_key w_init)) = None"
  using TransferFile_result_unless_key_failure [of env_ok req_plain client_pw w_init]
        TransferFile_result_unless_key_failure [of env_nokey req_key client_pw w_init]
  by (auto simp: key_failure_def env_nokey_def env_ok_def req_key_def req_plain_def)

text \<open>
  C2. When the session configuration of the request resolves, the dial with it succeeds
  (the host is reachable and the credentials authenticate), the file-transfer session
  opens, the source file opens and reads to its end as \<open>N\<close> bytes, and the remote side
  creates the directory and the file and takes the \<open>N\<close> bytes, then the transfer returns a
  \<open>completed\<close> result with no error, whose byte count is exactly \<open>N\<close> and which echoes the
  request's source path, destination path and host; the remote file holds the source's
  bytes.
\<close>

theorem completed_transfer_counts_source_bytes:
  assumes "fst (request_config e c req w) = Inr cfg"
    and "sshDial e (TargetHost req @ '':'' @ show_int (TargetPort req)) cfg = None"
    and "sftpNewClient e = None"
    and "osOpen e (SourceFilePath req) = Inr src"
    and "src_read_err src = None"
    and "length (src_data src) = N"
    and "sftpMkdirAll e (filepathDir e (TargetFilePath req)) = None"
    and "sftpCreate e (TargetFilePath req) = Inr dst"
    and "case dst_room dst of None \<Rightarrow> True | Some m \<Rightarrow> N \<le> m"
  shows "\<exists>r w'. TransferFile e c req w = ((Some r, None), w') \<and>
           Status r = ''completed'' \<and> BytesWritten r = int N \<and>
           SourceFile r = SourceFilePath req \<and> TargetFile r = TargetFilePath req \<and>
           RespTargetHost r = TargetHost req \<and> Error r = [] \<and>
           remote_data w' = src_data src \<and> handles w' = handles w"
proof -
  obtain w1 where rc: "request_config e c req (snd (now e w)) = (Inr cfg, w1)"
    using assms(1) request_config_fst [of e c req "snd (now e w)" w]
    by (cases "request_config e c req (snd (now e w))") simp
  from request_config_keeps [OF rc] have keep: "handles w1 = handles w"
    by (simp add: now_def)
  from assms(5,6,9) have copy: "io_Copy dst src = ((int N, None), src_data src)"
    by (auto simp: io_Copy_eq split: option.splits)
  show ?thesis
    using assms(2,3,4,7,8) rc keep copy
    by (simp add: TransferFile_def now_def Let_def run_deferred_eq
          record_event_def acquire_def split: prod.splits)
qed

theorem completed_transfer_counts_source_bytes_witness:
  "\<exists>r w'. TransferFile env_ok client_pw req_plain w_init = ((Some r, None), w') \<and>
           Status r = ''completed'' \<and> BytesWritten r = 5 \<and>
           SourceFile r = ''/tmp/a.txt'' \<and> TargetFile r = ''/remote/dir/a.txt'' \<and>
           RespTargetHost r = ''h'' \<and> remote_data w' = ''hello''"
  using completed_transfer_counts_source_bytes [of env_ok client_pw req_plain w_init "config client_pw"
                   "\<lparr>src_data = ''hello'', src_read_err = None\<rparr>" 5
                   "\<lparr>dst_room = None, dst_write_err = ''write failed''\<rparr>"]
  by (auto simp: request_config_def env_ok_def req_plain_def)

text \<open>
  C10. A result whose status is \<open>failed\<close> carries the empty identifier; the identifier is
  set only on the \<open>completed\<close> result, where it is \<open>transfer-\<close> followed by the reading of
  the clock taken for it (the third of the call).
\<close>

theorem failed_result_has_no_ID:
  "TransferFile e c req w = ((Some r, err), w') \<Longrightarrow>
     (Status r = ''failed'' \<longrightarrow> ID r = []) \<and>
     (ID r \<noteq> [] \<longrightarrow> Status r = ''completed'') \<and>
     (Status r = ''completed'' \<longrightarrow> ID r = ''transfer-'' @ show_int (clock e (ticks w + 2)))"
  by (auto simp: TransferFile_def return_failed_def now_def Let_def record_event_def acquire_def
        dest: request_config_keeps
        split: prod.splits sum.splits option.splits)

theorem failed_result_has_no_ID_witness:
  "fst (TransferFile env_nosftp client_pw req_plain w_init) =
     (Some \<lparr>ID = [], Status = ''failed'', SourceFile = ''/tmp/a.txt'',
             TargetFile = ''/remote/dir/a.txt'', RespTargetHost = ''h'', BytesWritten = 0,
             StartTime = 1000, EndTime = 1001, Duration = 2,
             Error = ''failed to create SFTP client: EOF''\<rparr>,
      Some ''EOF'') \<and>
   ID (the (fst (fst (TransferFile env_ok client_pw req_plain w_init)))) = ''transfer-1002''"
proof -
  have bad: "TransferFile env_nosftp client_pw req_plain w_init =
     ((Some \<lparr>ID = [], Status = ''failed'', SourceFile = ''/tmp/a.txt'',
              TargetFile = ''/remote/dir/a.txt'', RespTargetHost = ''h'', BytesWritten = 0,
              StartTime = 1000, EndTime = 1001, Duration = 2,
              Error = ''failed to create SFTP client: EOF''\<rparr>,
       Some ''EOF''),
      \<lparr>trace = [EvDial ''h:22'' (config client_pw), EvNewSftpClient, EvClose Conn],
         handles = [], ticks = 3, remote_data = []\<rparr>)"
    by (simp add: run_simps env_nosftp_def env_ok_def client_pw_def req_plain_def w_init_def)
  have ok: "TransferFile env_ok client_pw req_plain w_init =
     ((Some \<lparr>ID = ''transfer-1002'', Status = ''completed'', SourceFile = ''/tmp/a.txt'',
              TargetFile = ''/remote/dir/a.txt'', RespTargetHost = ''h'', BytesWritten = 5,
              StartTime = 1000, EndTime = 1001, Duration = 1, Error = []\<rparr>,
       None),
      \<lparr>trace = [EvDial ''h:22'' (config client_pw), EvNewSftpClient, EvOpen ''/tmp/a.txt'',
                 EvMkdirAll ''/remote/dir'', EvCreate ''/remote/dir/a.txt'', EvCopy,
                 EvClose DstFile, EvClose SrcFile, EvClose SftpClient, EvClose Conn],
         handles = [], ticks = 3, remote_data = ''hello''\<rparr>)"
    by (simp add: run_simps env_ok_def client_pw_def req_plain_def w_init_def)
  from failed_result_has_no_ID [OF bad] failed_result_has_no_ID [OF ok] bad ok
  show ?thesis by simp
qed



text \<open>
  C8. The transfer leaves the open handles as it found them: every handle a path opened
  (transport connection, file-transfer session, local source file, remote destination file)
  is closed again before the call returns, on the successful path and on every failing one.
  In particular, when the dial succeeds and opening the file-transfer session fails, the
  last thing the call does is close the transport connection.
\<close>

theorem TransferFile_releases_handles:
  "handles (snd (TransferFile e c req w)) = handles w \<and>
   (\<forall>cfg err. fst (request_config e c req w) = Inr cfg \<and>
       sshDial e (TargetHost req @ '':'' @ show_int (TargetPort req)) cfg = None \<and>
       sftpNewClient e = Some err \<longrightarrow>
       (\<exists>pre. trace (snd (TransferFile e c req w)) = pre @ [EvNewSftpClient, EvClose Conn]))"
proof (intro conjI allI impI)
  show "handles (snd (TransferFile e c req w)) = handles w"
    by (auto simp: TransferFile_def return_failed_def now_def Let_def run_deferred_eq
          record_event_def acquire_def
          dest: request_config_keeps
          split: prod.splits sum.splits option.splits)
next
  fix cfg err
  assume a: "fst (request_config e c req w) = Inr cfg \<and>
       sshDial e (TargetHost req @ '':'' @ show_int (TargetPort req)) cfg = None \<and>
       sftpNewClient e = Some err"
  obtain w1 where rc: "request_config e c req (snd (now e w)) = (Inr cfg, w1)"
    using a request_config_fst [of e c req "snd (now e w)" w]
    by (cases "request_config e c req (snd (now e w))") simp
  show "\<exists>pre. trace (snd (TransferFile e c req w)) = pre @ [EvNewSftpClient, EvClose Conn]"
    using a rc
    by (simp add: TransferFile_def return_failed_def now_def Let_def run_deferred_eq
          record_event_def acquire_def split: prod.splits)
qed

theorem TransferFile_releases_handles_witness:
  "handles (snd (TransferFile env_nosftp client_pw req_plain w_init)) = [] \<and>
   trace (snd (TransferFile env_nosftp client_pw req_plain w_init)) =
     [EvDial ''h:22'' (config client_pw), EvNewSftpClient, EvClose Conn]"
  using TransferFile_releases_handles [of env_nosftp client_pw req_plain w_init]
  by (simp add: run_simps env_nosftp_def env_ok_def client_pw_def req_plain_def w_init_def)




text \<open>
  C3. The claim says the configuration of an overriding request is what the factory builds
  from the request's three values; for a request that sets only the user name the factory
  refuses (no credential), but the override block of \<open>TransferFile\<close> has no such branch: it
  dials with a configuration that has the request's user name and no authentication method
  at all, although the service default holds a password. Evaluated at that request.
\<close>

theorem username_only_override_dials_without_auth:
  "fst (NewClient env_auth ''alice'' [] [] w_init) =
     Inl ''either password or keyPath must be provided'' \<and>
   handle_TransferFile cfg_pw env_auth body_user w_init =
     ((500, JSON_Response (Some
        \<lparr>ID = [], Status = ''failed'', SourceFile = ''/tmp/a.txt'',
           TargetFile = ''/remote/dir/a.txt'', RespTargetHost = ''h'', BytesWritten = 0,
           StartTime = 1000, EndTime = 1001, Duration = 2,
           Error = ''failed to connect to SSH server: ssh: unable to authenticate''\<rparr>)),
      \<lparr>trace = [EvDial ''h:22'' \<lparr>User = ''alice'', Auth = [],
                                   HostKeyCallback = InsecureIgnoreHostKey, Timeout = 30\<rparr>],
         handles = [], ticks = 3, remote_data = []\<rparr>)"
  by (simp add: run_simps env_auth_def env_ok_def cfg_pw_def body_user_def body_plain_def w_init_def)

section \<open>The handler\<close>

text \<open>
  C4. When the service defaults hold neither a password nor a key path and the request
  supplies neither, the handler never reaches the transfer: nothing is asked of the outside
  world (the world is unchanged, so no dial is made), the answer is not a success, and for
  a request that passes validation it is the 500 answer of the failed credential
  resolution.
\<close>

theorem no_credentials_no_dial:
  assumes "SSHPassword s = []" and "SSHKeyPath s = []"
    and "str_or_zero (j_password body) = []" and "str_or_zero (j_private_key_path body) = []"
  shows "snd (handle_TransferFile s e body w) = w \<and>
         fst (fst (handle_TransferFile s e body w)) \<noteq> 200 \<and>
         (\<forall>req. ShouldBindJSON body = Inr req \<longrightarrow>
            fst (handle_TransferFile s e body w) =
              (500, JSON_APIError \<lparr>Code = 500, Message = ''Failed to create SSH client'',
                                    Details = ''either password or keyPath must be provided''\<rparr>))"
  using assms
  by (auto simp: handle_TransferFile_def ShouldBindJSON_def decode_def NewClient_def Let_def
        split: sum.splits if_splits)

theorem no_credentials_no_dial_witness:
  "fst (handle_TransferFile cfg_none env_ok body_plain w_init) =
     (500, JSON_APIError \<lparr>Code = 500, Message = ''Failed to create SSH client'',
                           Details = ''either password or keyPath must be provided''\<rparr>) \<and>
   snd (handle_TransferFile cfg_none env_ok body_plain w_init) = w_init"
  using no_credentials_no_dial [of cfg_none body_plain env_ok w_init]
  by (simp add: cfg_none_def body_plain_def str_or_zero_def ShouldBindJSON_def decode_def
        required_failures_def Let_def)

text \<open>
  C7. The claim says a request whose port is omitted or zero is accepted and dialled on
  port 22. The handler has the default (\<open>if req.TargetPort == 0\<close>), but the binding that
  runs before it rejects the zero port, since \<open>TargetPort\<close> is tagged \<open>required\<close>: the
  answer is 400 and nothing is dialled. Evaluated at a body without a port and at a body
  with port 0.
\<close>

theorem unset_port_is_rejected:
  "handle_TransferFile cfg_pw env_ok body_noport w_init =
     ((400, JSON_APIError \<lparr>Code = 400, Message = ''Invalid request payload'',
                           Details = field_error ''TargetPort''\<rparr>), w_init) \<and>
   handle_TransferFile cfg_pw env_ok body_zero w_init =
     ((400, JSON_APIError \<lparr>Code = 400, Message = ''Invalid request payload'',
                           Details = field_error ''TargetPort''\<rparr>), w_init)"
  by (simp add: handle_TransferFile_def ShouldBindJSON_def decode_def required_failures_def
        str_or_zero_def Let_def body_noport_def body_zero_def body_plain_def)

end
